theory Spec2Isabelle
  imports Main "HOL-Library.Finite_Map"
begin

section \<open>Values decoded from JSON\<close>

text \<open>
  The aggregator stores what \<open>json.loads\<close> returns without checking its type, so the
  fields of a beacon identity, of a contact and of a description are arbitrary decoded
  JSON values. They are modelled up to Python's \<open>==\<close>, which is the only comparison the
  program applies to them: \<open>True\<close> and \<open>False\<close> are the numbers 1 and 0 (Python's
  \<open>bool\<close> is a subclass of \<open>int\<close> and \<open>True == 1\<close>), a \<open>dict\<close> is a finite map (its
  equality ignores the order of the keys) and a \<open>list\<close> is a list. Numbers are integers;
  fractional numbers and the \<open>NaN\<close>/\<open>Infinity\<close> literals that \<open>json.loads\<close>
  accepts are not represented.
\<close>

datatype json =
    JNull
  | JNum int
  | JStr string
  | JArr "json list"
  | JObj "(string, json) fmap"

section \<open>The data model: \<open>BeaconId\<close>, \<open>Contact\<close>, \<open>Stone\<close>\<close>

record BeaconId =
  uuid :: json
  major :: json
  minor :: json

record Contact =
  timestamp :: int
  mac_address :: json
  b_address :: BeaconId
  rssi_min :: json
  rssi_max :: json
  rssi_avg :: json
  tx_rssi :: json

text \<open>
  A stone's own address is the suffix of the topic its report arrived on, a string. Its
  fields carry the prefix \<open>s_\<close> where the source reuses a field name of \<open>Contact\<close>.
\<close>

record Stone =
  s_mac_address :: string
  s_b_address :: BeaconId
  comment :: json
  last_update :: int
  contacts :: "Contact list"

text \<open>\<open>Stone.__init__\<close>: no update seen yet, no contacts.\<close>

definition Stone_init :: "string \<Rightarrow> BeaconId \<Rightarrow> json \<Rightarrow> Stone" where
  "Stone_init mac b c =
     \<lparr>s_mac_address = mac, s_b_address = b, comment = c, last_update = 0, contacts = []\<rparr>"

subsection \<open>\<open>Stone.update\<close>\<close>

text \<open>
  The list comprehension of line 62: the contacts that are not older than 60 seconds,
  measured from the timestamp of the call.
\<close>

definition evict :: "int \<Rightarrow> Contact list \<Rightarrow> Contact list" where
  "evict ts cs = filter (\<lambda>c. timestamp c \<ge> ts - 60) cs"

text \<open>
  One round of the loop of lines 65 to 67: drop every contact with the address of the
  new one, then append the new one.
\<close>

definition put_contact :: "Contact list \<Rightarrow> Contact \<Rightarrow> Contact list" where
  "put_contact cs ct = filter (\<lambda>x. mac_address x \<noteq> mac_address ct) cs @ [ct]"

definition update :: "Stone \<Rightarrow> int \<Rightarrow> Contact list \<Rightarrow> Stone" where
  "update s ts recent_contacts =
     s\<lparr>last_update := ts,
       contacts := foldl put_contact (evict ts (contacts s)) recent_contacts\<rparr>"

text \<open>A sequence of calls, each with its timestamp and its new contacts.\<close>

definition updates :: "Stone \<Rightarrow> (int \<times> Contact list) list \<Rightarrow> Stone" where
  "updates s calls = foldl (\<lambda>s (ts, cs). update s ts cs) s calls"

text \<open>The invariant of the data model, in its two parts.\<close>

definition unique_sources :: "Contact list \<Rightarrow> bool" where
  "unique_sources cs = distinct (map mac_address cs)"

definition within_window :: "Stone \<Rightarrow> bool" where
  "within_window s = list_all (\<lambda>c. timestamp c \<ge> last_update s - 60) (contacts s)"

section \<open>\<open>World\<close>\<close>

text \<open>
  The two dictionaries of the world. Stones are keyed by their address, a string;
  descriptions are keyed by whatever the name update carried as \<open>mac\<close>. The lock
  serialises the calls and has no other effect, so the operations are functions from
  world to world.
\<close>

record World =
  stones :: "(string, Stone) fmap"
  descs :: "(json, json \<times> json) fmap"

definition World_init :: World where
  "World_init = \<lparr>stones = fmempty, descs = fmempty\<rparr>"

datatype py_error = KeyError string | TypeError | ValueError | RecursionError

definition update_stone :: "World \<Rightarrow> Stone \<Rightarrow> World" where
  "update_stone w stone =
     (case fmlookup (stones w) (s_mac_address stone) of
        None \<Rightarrow> w\<lparr>stones := fmupd (s_mac_address stone) stone (stones w)\<rparr>
      | Some existing \<Rightarrow>
          w\<lparr>stones := fmupd (s_mac_address stone)
                 (update existing (last_update stone) (contacts stone)) (stones w)\<rparr>)"

text \<open>
  A dictionary key must be hashable: storing under a list or a dict raises
  \<open>TypeError\<close> and stores nothing.
\<close>

fun hashable :: "json \<Rightarrow> bool" where
  "hashable (JArr xs) = False"
| "hashable (JObj m) = False"
| "hashable v = True"

definition update_desc :: "World \<Rightarrow> json \<Rightarrow> json \<Rightarrow> json \<Rightarrow> py_error + World" where
  "update_desc w mac name color =
     (if hashable mac then Inr (w\<lparr>descs := fmupd mac (name, color) (descs w)\<rparr>)
      else Inl TypeError)"

section \<open>\<open>Aggregator\<close>\<close>

text \<open>
  Each function here is the dictionary that the source function builds, before
  \<open>json.dumps\<close> renders it; the calls as a whole, with the reading of the flag and the
  rendering, follow with the handler. The value of the configuration flag
  \<open>StoneInfoIncludeContacts\<close> is the first argument of \<open>aggregate_stones\<close>.
\<close>

definition stone_contact :: "Contact \<Rightarrow> json" where
  "stone_contact c = JObj (fmap_of_list
     [(''mac'', mac_address c), (''uuid'', uuid (b_address c)),
      (''major'', major (b_address c)), (''minor'', minor (b_address c)),
      (''rssi_avg'', rssi_avg c), (''rssi_tx'', tx_rssi c)])"

definition stone_entry :: "bool \<Rightarrow> Stone \<Rightarrow> (string, json) fmap" where
  "stone_entry include_contacts s =
     (let info = fmap_of_list
        [(''uuid'', uuid (s_b_address s)), (''major'', major (s_b_address s)),
         (''minor'', minor (s_b_address s)), (''comment'', comment s),
         (''last_seen'', JNum (last_update s))]
      in if include_contacts
         then fmupd ''contacts'' (JArr (map stone_contact (contacts s))) info
         else info)"

definition aggregate_stones :: "bool \<Rightarrow> (string, Stone) fmap \<Rightarrow> (string, json) fmap" where
  "aggregate_stones include_contacts sts = fmmap (\<lambda>s. JObj (stone_entry include_contacts s)) sts"

definition graph_contact :: "int \<Rightarrow> Contact \<Rightarrow> json" where
  "graph_contact current_time c = JObj (fmap_of_list
     [(''mac'', mac_address c), (''uuid'', uuid (b_address c)),
      (''major'', major (b_address c)), (''minor'', minor (b_address c)),
      (''age'', JNum (current_time - timestamp c)),
      (''rssi_avg'', rssi_avg c), (''rssi_tx'', tx_rssi c)])"

definition graph_entry :: "int \<Rightarrow> Stone \<Rightarrow> (string, json) fmap" where
  "graph_entry current_time s = fmap_of_list
     [(''uuid'', uuid (s_b_address s)), (''major'', major (s_b_address s)),
      (''minor'', minor (s_b_address s)), (''comment'', comment s),
      (''age'', JNum (current_time - last_update s)),
      (''contacts'', JArr (map (graph_contact current_time) (contacts s)))]"

definition aggregate_graph :: "(string, Stone) fmap \<Rightarrow> int \<Rightarrow> (string, json) fmap" where
  "aggregate_graph sts current_time = fmmap (\<lambda>s. JObj (graph_entry current_time s)) sts"

definition aggregate_descs :: "(json, json \<times> json) fmap \<Rightarrow> (json, json) fmap" where
  "aggregate_descs descriptions =
     fmmap (\<lambda>d. JObj (fmap_of_list [(''name'', fst d), (''color'', snd d)])) descriptions"

section \<open>Time\<close>

text \<open>
  \<open>datetime\<close>, as far as the handler uses it. A datetime without \<open>tzinfo\<close> is naive:
  its \<open>timestamp()\<close> reads the fields as local time of the host. One with \<open>tzinfo\<close>
  reads them in that zone. \<open>replace\<close> returns a new datetime and leaves its receiver as
  it was. The seconds are whole, so \<open>int\<close> of the float that \<open>timestamp()\<close> returns
  is the number itself. Dates at the ends of the range of \<open>datetime\<close>, where
  \<open>timestamp()\<close> raises, are left out.
\<close>

datatype tz = UTC

record datetime =
  year :: int
  month :: int
  day :: int
  hour :: int
  minute :: int
  second :: int
  tzinfo :: "tz option"

definition is_leap :: "int \<Rightarrow> bool" where
  "is_leap y = (y mod 4 = 0 \<and> (y mod 100 \<noteq> 0 \<or> y mod 400 = 0))"

definition days_before_year :: "int \<Rightarrow> int" where
  "days_before_year y = (y - 1) * 365 + (y - 1) div 4 - (y - 1) div 100 + (y - 1) div 400"

definition days_in_month :: "int \<Rightarrow> int \<Rightarrow> int" where
  "days_in_month y m =
     (if m = 2 then (if is_leap y then 29 else 28)
      else if m = 4 \<or> m = 6 \<or> m = 9 \<or> m = 11 then 30 else 31)"

definition days_before_month :: "int \<Rightarrow> int \<Rightarrow> int" where
  "days_before_month y m = sum_list (map (days_in_month y) [1..m - 1])"

definition ymd2ord :: "int \<Rightarrow> int \<Rightarrow> int \<Rightarrow> int" where
  "ymd2ord y m d = days_before_year y + days_before_month y m + d"

text \<open>Seconds from 1970-01-01T00:00:00 to the fields of the datetime, on one clock.\<close>

definition wall_seconds :: "datetime \<Rightarrow> int" where
  "wall_seconds dt =
     (ymd2ord (year dt) (month dt) (day dt) - ymd2ord 1970 1 1) * 86400
       + hour dt * 3600 + minute dt * 60 + second dt"

definition replace_tzinfo :: "datetime \<Rightarrow> tz \<Rightarrow> datetime" where
  "replace_tzinfo dt z = dt\<lparr>tzinfo := Some z\<rparr>"

text \<open>
  \<open>datetime.timestamp\<close>. The first argument is the host's time zone: the offset from
  UTC, in seconds, of the local time that the fields of a naive datetime denote.
\<close>

definition dt_timestamp :: "(datetime \<Rightarrow> int) \<Rightarrow> datetime \<Rightarrow> int" where
  "dt_timestamp local_offset dt =
     (case tzinfo dt of
        None \<Rightarrow> wall_seconds dt - local_offset dt
      | Some UTC \<Rightarrow> wall_seconds dt)"

section \<open>\<open>MqttService\<close>\<close>

text \<open>
  What the handler takes from outside the repository: the two decoders, the parser of
  the time format, the host's time zone, the configuration flag read by the
  aggregator, and the encoder. \<open>json_loads\<close> stands for
  \<open>json.loads(payload.decode('utf-8'))\<close>; a decoder returns \<open>None\<close> where the
  library raises. \<open>strptime\<close> returns the six fields read under the format
  \<open>%Y-%m-%dT%H:%M:%SZ\<close>, which has no zone directive, so the datetime built from
  them is naive. \<open>StoneInfoIncludeContacts\<close> is what
  \<open>CONFIG.getboolean('Aggregator', 'StoneInfoIncludeContacts', fallback=True)\<close>
  returns, or \<open>None\<close> where it raises \<open>ValueError\<close>, because the configured value is
  no boolean. \<open>dumps_error\<close> is the exception that \<open>json.dumps\<close> raises on a
  dictionary, if it raises one (as \<open>RecursionError\<close> on values nested too deeply).
\<close>

text \<open>A byte of a payload, one element of Python's \<open>bytes\<close>, is a \<open>char\<close>.\<close>

type_synonym bytes = string

text \<open>
  The dictionaries that the aggregator renders: keyed by the address of a stone, or by
  the key of a description.
\<close>

datatype document =
    By_address "(string, json) fmap"
  | By_key "(json, json) fmap"

record Env =
  zlib_decompress :: "bytes \<Rightarrow> bytes option"
  json_loads :: "bytes \<Rightarrow> json option"
  strptime :: "string \<Rightarrow> (int \<times> int \<times> int \<times> int \<times> int \<times> int) option"
  local_utcoffset :: "datetime \<Rightarrow> int"
  StoneInfoIncludeContacts :: "bool option"
  dumps_error :: "document \<Rightarrow> py_error option"

record MqttService =
  world :: World
  channel_in_sensors_prefix :: string
  channel_in_nameupdate :: string
  channel_out_stones :: string
  channel_out_graph :: string
  channel_out_names :: string
  update_interval :: int
  last_stone_update :: int

text \<open>\<open>MqttService.__init__\<close> with the fallback values of the configuration.\<close>

definition MqttService_init :: "World \<Rightarrow> MqttService" where
  "MqttService_init w =
     \<lparr>world = w,
      channel_in_sensors_prefix = ''JellingStone/'',
      channel_in_nameupdate = ''NameUpdate'',
      channel_out_stones = ''Aggregated/Stones'',
      channel_out_graph = ''Aggregated/Graph'',
      channel_out_names = ''Aggregated/Names'',
      update_interval = 4,
      last_stone_update = 0\<rparr>"

text \<open>Sequencing of steps that may raise: the first exception ends the sequence.\<close>

definition andthen :: "py_error + 'a \<Rightarrow> ('a \<Rightarrow> py_error + 'b) \<Rightarrow> py_error + 'b" where
  "andthen r f = (case r of Inl e \<Rightarrow> Inl e | Inr x \<Rightarrow> f x)"

text \<open>\<open>d[k]\<close> with a string \<open>k\<close>: only a dict can be subscripted by a string.\<close>

definition subscript :: "json \<Rightarrow> string \<Rightarrow> py_error + json" where
  "subscript d k =
     (case d of
        JObj m \<Rightarrow> (case fmlookup m k of None \<Rightarrow> Inl (KeyError k) | Some v \<Rightarrow> Inr v)
      | _ \<Rightarrow> Inl TypeError)"

subsection \<open>Decoding the payload (lines 170 to 179)\<close>

text \<open>
  \<open>Inl n\<close>: an exception inside the \<open>try\<close> block, with the length that the handler
  prints. An empty payload fails at \<open>payload[0]\<close>, a payload that is the single byte
  \<open>0x78\<close> at \<open>payload[1]\<close>.
\<close>

definition loads :: "Env \<Rightarrow> bytes \<Rightarrow> nat + json" where
  "loads env payload =
     (case json_loads env payload of None \<Rightarrow> Inl (length payload) | Some data \<Rightarrow> Inr data)"

definition decode :: "Env \<Rightarrow> bytes \<Rightarrow> nat + json" where
  "decode env payload =
     (case payload of
        [] \<Rightarrow> Inl 0
      | b0 # rest \<Rightarrow>
          if b0 = CHR 0x78 then
            (case rest of
               [] \<Rightarrow> Inl 1
             | b1 # _ \<Rightarrow>
                 if b1 = CHR 0x9c then
                   (case zlib_decompress env payload of
                      None \<Rightarrow> Inl (length payload)
                    | Some payload' \<Rightarrow> loads env payload')
                 else loads env payload)
          else loads env payload)"

subsection \<open>Reading a sensor report (lines 183 to 197)\<close>

text \<open>
  Lines 187 to 190. The result of \<open>replace\<close> is not bound to anything, so
  \<open>timestamp()\<close> is taken of the naive datetime.
\<close>

definition parse_time :: "Env \<Rightarrow> json \<Rightarrow> py_error + int" where
  "parse_time env time_string =
     (case time_string of
        JStr s \<Rightarrow>
          (case strptime env s of
             None \<Rightarrow> Inl ValueError
           | Some (y, mo, d, h, mi, sec) \<Rightarrow>
               (let time_dt = \<lparr>year = y, month = mo, day = d, hour = h, minute = mi,
                                second = sec, tzinfo = None\<rparr>;
                    unused = replace_tzinfo time_dt UTC
                in Inr (dt_timestamp (local_utcoffset env) time_dt)))
      | _ \<Rightarrow> Inl TypeError)"

text \<open>
  Lines 195 and 196, for one entry \<open>ct\<close> of the report. For a \<open>ct\<close> that is not a dict
  the outcome is \<open>TypeError\<close> in every case: a number or \<open>null\<close> raises it at
  \<open>'uuid' in ct\<close>; a string or a list lets the test pass or fail, and then raises it
  at \<open>ct['uuid']\<close> or at \<open>ct['mac']\<close>.
\<close>

definition contact_of :: "int \<Rightarrow> json \<Rightarrow> py_error + Contact" where
  "contact_of ts ct =
     (case ct of
        JObj m \<Rightarrow>
          andthen
            (if fmlookup m ''uuid'' \<noteq> None \<and> fmlookup m ''major'' \<noteq> None
                \<and> fmlookup m ''minor'' \<noteq> None
             then andthen (subscript ct ''uuid'') (\<lambda>u.
                  andthen (subscript ct ''major'') (\<lambda>ma.
                  andthen (subscript ct ''minor'') (\<lambda>mi.
                  Inr \<lparr>uuid = u, major = ma, minor = mi\<rparr>)))
             else Inr \<lparr>uuid = JStr [], major = JNum 0, minor = JNum 0\<rparr>)
            (\<lambda>bid.
               andthen (subscript ct ''mac'') (\<lambda>mac.
               andthen (subscript ct ''min'') (\<lambda>mn.
               andthen (subscript ct ''max'') (\<lambda>mx.
               andthen (subscript ct ''avg'') (\<lambda>avg.
               andthen (subscript ct ''remoteRssi'') (\<lambda>remote.
               Inr \<lparr>timestamp = ts, mac_address = mac, b_address = bid, rssi_min = mn,
                    rssi_max = mx, rssi_avg = avg, tx_rssi = remote\<rparr>))))))
      | _ \<Rightarrow> Inl TypeError)"

text \<open>The loop of lines 194 to 196 over the entries.\<close>

fun contacts_of :: "int \<Rightarrow> json list \<Rightarrow> py_error + Contact list" where
  "contacts_of ts [] = Inr []"
| "contacts_of ts (ct # cts) =
     andthen (contact_of ts ct) (\<lambda>c.
     andthen (contacts_of ts cts) (\<lambda>cs. Inr (c # cs)))"

text \<open>
  What \<open>for ct in data['data']\<close> iterates over. A list gives its elements. A dict
  gives its keys and a string its characters, all of them strings, on which the body of
  the loop raises \<open>TypeError\<close> at the first one; only an empty dict or string gets
  through, with no entry. A number or \<open>null\<close> is not iterable.
\<close>

definition entries :: "json \<Rightarrow> py_error + json list" where
  "entries d =
     (case d of
        JArr xs \<Rightarrow> Inr xs
      | JObj m \<Rightarrow> (if m = fmempty then Inr [] else Inl TypeError)
      | JStr s \<Rightarrow> (if s = [] then Inr [] else Inl TypeError)
      | _ \<Rightarrow> Inl TypeError)"

text \<open>
  Lines 183 to 197: the stone of the report, after its own \<open>update\<close>, and the timestamp
  of the report.
\<close>

definition read_report :: "Env \<Rightarrow> string \<Rightarrow> json \<Rightarrow> py_error + (Stone \<times> int)" where
  "read_report env mac data =
     andthen (subscript data ''uuid'') (\<lambda>u.
     andthen (subscript data ''major'') (\<lambda>ma.
     andthen (subscript data ''minor'') (\<lambda>mi.
     andthen (subscript data ''comment'') (\<lambda>c.
     andthen (subscript data ''timestamp'') (\<lambda>time_string.
     andthen (parse_time env time_string) (\<lambda>ts.
     andthen (subscript data ''data'') (\<lambda>d.
     andthen (entries d) (\<lambda>cts.
     andthen (contacts_of ts cts) (\<lambda>recent.
     Inr (update (Stone_init mac \<lparr>uuid = u, major = ma, minor = mi\<rparr> c) ts recent,
          ts))))))))))"

subsection \<open>The calls of the aggregator\<close>

text \<open>
  \<open>json.dumps\<close>: the exception, where the encoder raises one; else the text, which
  stands here as the dictionary that it renders.
\<close>

definition json_dumps :: "Env \<Rightarrow> document \<Rightarrow> py_error + document" where
  "json_dumps env doc = (case dumps_error env doc of Some e \<Rightarrow> Inl e | None \<Rightarrow> Inr doc)"

text \<open>
  \<open>Aggregator.aggregate_stones\<close> as a whole, lines 99 to 108: line 104 reads the flag
  inside the loop, so for the first stone, and not at all without stones; line 108
  renders the dictionary that \<open>aggregate_stones\<close> above stands for. Likewise lines 111
  to 118 and lines 121 to 126.
\<close>

definition aggregate_stones_dumps ::
  "Env \<Rightarrow> (string, Stone) fmap \<Rightarrow> py_error + document" where
  "aggregate_stones_dumps env sts =
     (if sts = fmempty then json_dumps env (By_address fmempty)
      else (case StoneInfoIncludeContacts env of
              None \<Rightarrow> Inl ValueError
            | Some include_contacts \<Rightarrow>
                json_dumps env (By_address (aggregate_stones include_contacts sts))))"

definition aggregate_graph_dumps ::
  "Env \<Rightarrow> (string, Stone) fmap \<Rightarrow> int \<Rightarrow> py_error + document" where
  "aggregate_graph_dumps env sts current_time =
     json_dumps env (By_address (aggregate_graph sts current_time))"

definition aggregate_descs_dumps ::
  "Env \<Rightarrow> (json, json \<times> json) fmap \<Rightarrow> py_error + document" where
  "aggregate_descs_dumps env descriptions =
     json_dumps env (By_key (aggregate_descs descriptions))"

subsection \<open>\<open>on_message\<close>\<close>

text \<open>
  What a call of the handler does besides changing the service: the line it prints, and
  the retained messages it hands to the client, each a topic and the dictionary that is
  rendered into the payload. The client's own failures are the transport's and are left
  out.
\<close>

datatype effect = Print nat string | Publish string document

text \<open>
  The outcome of one call: the service after it, what it printed and published, and the
  exception that left the handler, if one did.
\<close>

record outcome =
  state :: MqttService
  effects :: "effect list"
  raised :: "py_error option"

text \<open>
  Lines 181 to 209. An exception while the report is read leaves the service as it
  was. One while the aggregates are rendered comes after the stone has been stored
  (line 200) and \<open>last_stone_update\<close> has been set (line 204), and before anything
  is published: both aggregates are rendered (lines 206 and 207) before the first of
  them is published (line 208).
\<close>

definition on_sensor_report :: "Env \<Rightarrow> MqttService \<Rightarrow> string \<Rightarrow> json \<Rightarrow> outcome" where
  "on_sensor_report env svc topic data =
     (case read_report env (drop (length (channel_in_sensors_prefix svc)) topic) data of
        Inl e \<Rightarrow> \<lparr>state = svc, effects = [], raised = Some e\<rparr>
      | Inr (stone, ts) \<Rightarrow>
          (let svc1 = svc\<lparr>world := update_stone (world svc) stone\<rparr>
           in if ts - last_stone_update svc1 \<ge> update_interval svc1
              then (let svc2 = svc1\<lparr>last_stone_update := ts\<rparr>
                    in case aggregate_stones_dumps env (stones (world svc2)) of
                         Inl e \<Rightarrow> \<lparr>state = svc2, effects = [], raised = Some e\<rparr>
                       | Inr agg_stones \<Rightarrow>
                           (case aggregate_graph_dumps env (stones (world svc2)) ts of
                              Inl e \<Rightarrow> \<lparr>state = svc2, effects = [], raised = Some e\<rparr>
                            | Inr agg_graph \<Rightarrow>
                                \<lparr>state = svc2,
                                 effects = [Publish (channel_out_stones svc2) agg_stones,
                                            Publish (channel_out_graph svc2) agg_graph],
                                 raised = None\<rparr>))
              else \<lparr>state = svc1, effects = [], raised = None\<rparr>))"

text \<open>
  Lines 211 to 218. An exception while the fields are read or the description is
  stored leaves the service as it was; one while the descriptions are rendered comes
  after the description has been stored.
\<close>

definition on_name_update :: "Env \<Rightarrow> MqttService \<Rightarrow> json \<Rightarrow> outcome" where
  "on_name_update env svc data =
     (case andthen (subscript data ''mac'') (\<lambda>mac.
           andthen (subscript data ''name'') (\<lambda>name.
           andthen (subscript data ''color'') (\<lambda>color.
           update_desc (world svc) mac name color))) of
        Inl e \<Rightarrow> \<lparr>state = svc, effects = [], raised = Some e\<rparr>
      | Inr w \<Rightarrow>
          (case aggregate_descs_dumps env (descs w) of
             Inl e \<Rightarrow> \<lparr>state = svc\<lparr>world := w\<rparr>, effects = [], raised = Some e\<rparr>
           | Inr agg_descs \<Rightarrow>
               \<lparr>state = svc\<lparr>world := w\<rparr>,
                effects = [Publish (channel_out_names svc) agg_descs],
                raised = None\<rparr>))"

definition on_message :: "Env \<Rightarrow> MqttService \<Rightarrow> string \<Rightarrow> bytes \<Rightarrow> outcome" where
  "on_message env svc topic payload =
     (case decode env payload of
        Inl n \<Rightarrow> \<lparr>state = svc, effects = [Print n topic], raised = None\<rparr>
      | Inr data \<Rightarrow>
          if take (length (channel_in_sensors_prefix svc)) topic = channel_in_sensors_prefix svc
          then on_sensor_report env svc topic data
          else if topic = channel_in_nameupdate svc
          then on_name_update env svc data
          else \<lparr>state = svc, effects = [], raised = None\<rparr>)"

section \<open>Notions of the claims\<close>


text \<open>
  The fields that line 196 reads in every entry of a report, and the beacon identity
  that the claim on the optional fields gives the contact of an entry: made of
  \<open>uuid\<close>, \<open>major\<close> and \<open>minor\<close> when the entry has all three, and \<open>('', 0, 0)\<close>
  otherwise.
\<close>

definition has_contact_fields :: "(string, json) fmap \<Rightarrow> bool" where
  "has_contact_fields m =
     (fmlookup m ''mac'' \<noteq> None \<and> fmlookup m ''min'' \<noteq> None \<and> fmlookup m ''max'' \<noteq> None \<and>
      fmlookup m ''avg'' \<noteq> None \<and> fmlookup m ''remoteRssi'' \<noteq> None)"

definition identity_of :: "(string, json) fmap \<Rightarrow> BeaconId" where
  "identity_of m =
     (case (fmlookup m ''uuid'', fmlookup m ''major'', fmlookup m ''minor'') of
        (Some u, Some ma, Some mi) \<Rightarrow> \<lparr>uuid = u, major = ma, minor = mi\<rparr>
      | _ \<Rightarrow> \<lparr>uuid = JStr [], major = JNum 0, minor = JNum 0\<rparr>)"

definition contact_at :: "int \<Rightarrow> (string, json) fmap \<Rightarrow> Contact" where
  "contact_at ts m =
     \<lparr>timestamp = ts, mac_address = the (fmlookup m ''mac''), b_address = identity_of m,
      rssi_min = the (fmlookup m ''min''), rssi_max = the (fmlookup m ''max''),
      rssi_avg = the (fmlookup m ''avg''), tx_rssi = the (fmlookup m ''remoteRssi'')\<rparr>"

section \<open>Example values\<close>

text \<open>
  The identity that line 195 gives a contact without one, an observation of the address
  \<open>a\<close> at the time \<open>t\<close>, and a stone that has not been updated yet.
\<close>

definition no_identity :: BeaconId where
  "no_identity = \<lparr>uuid = JStr [], major = JNum 0, minor = JNum 0\<rparr>"

definition sighting :: "string \<Rightarrow> int \<Rightarrow> Contact" where
  "sighting a t =
     \<lparr>timestamp = t, mac_address = JStr a, b_address = no_identity, rssi_min = JNum (- 80),
      rssi_max = JNum (- 60), rssi_avg = JNum (- 70), tx_rssi = JNum (- 59)\<rparr>"

definition fresh_stone :: Stone where
  "fresh_stone = Stone_init ''s1'' no_identity (JStr ''hall'')"

text \<open>A stone that saw three beacons, at the seconds 0, 1 and 30.\<close>

definition three_sightings :: Stone where
  "three_sightings = updates fresh_stone
     [(0, [sighting ''aa'' 0]), (1, [sighting ''bb'' 1]), (30, [sighting ''cc'' 30])]"

text \<open>
  A world that holds the stone \<open>s1\<close> with one contact, and two reports to merge into
  it: one for \<open>s1\<close> that carries another identity and comment, one for a stone \<open>s2\<close>.
\<close>

definition hall_world :: World where
  "hall_world = update_stone World_init (update fresh_stone 30 [sighting ''aa'' 30])"

definition moved_stone :: Stone where
  "moved_stone =
     update (Stone_init ''s1'' \<lparr>uuid = JStr ''f0'', major = JNum 7, minor = JNum 9\<rparr>
               (JStr ''door''))
       61 [sighting ''bb'' 61]"

definition other_stone :: Stone where
  "other_stone = update (Stone_init ''s2'' no_identity (JStr ''yard'')) 61 [sighting ''bb'' 61]"


text \<open>
  An entry of the list \<open>data\<close> of a report, for the address \<open>a\<close>: the five fields
  that line 196 reads, and the given further ones. An entry without the field \<open>mac\<close>.
\<close>

definition entry_of :: "string \<Rightarrow> (string \<times> json) list \<Rightarrow> (string, json) fmap" where
  "entry_of a extra = fmap_of_list
     ([(''mac'', JStr a), (''min'', JNum (- 80)), (''max'', JNum (- 60)),
       (''avg'', JNum (- 70)), (''remoteRssi'', JNum (- 59))] @ extra)"

definition nameless_entry :: "(string, json) fmap" where
  "nameless_entry = fmap_of_list
     [(''min'', JNum (- 80)), (''max'', JNum (- 60)), (''avg'', JNum (- 70)),
      (''remoteRssi'', JNum (- 59))]"

text \<open>
  Three entries: one without an identity, one with a whole identity, one without
  \<open>minor\<close>; and the contacts that a report of the time \<open>t\<close> makes of them.
\<close>

definition three_entries :: "(string, json) fmap list" where
  "three_entries =
     [entry_of ''aa'' [],
      entry_of ''bb'' [(''uuid'', JStr ''f0''), (''major'', JNum 7), (''minor'', JNum 9)],
      entry_of ''cc'' [(''uuid'', JStr ''f0''), (''major'', JNum 7)]]"

definition three_contacts :: "int \<Rightarrow> Contact list" where
  "three_contacts t =
     [sighting ''aa'' t,
      (sighting ''bb'' t)\<lparr>b_address := \<lparr>uuid = JStr ''f0'', major = JNum 7, minor = JNum 9\<rparr>\<rparr>,
      sighting ''cc'' t]"

text \<open>
  A report with the given entries, as the text of its payload and as the dictionary
  that \<open>json.loads\<close> makes of it; and the texts of the entries above.
\<close>

definition report_text :: "string \<Rightarrow> bytes \<Rightarrow> bytes" where
  "report_text time entries_text =
     ''{\"uuid\":\"\",\"major\":0,\"minor\":0,\"comment\":\"hall\",\"timestamp\":\"'' @ time
       @ ''\",\"data\":['' @ entries_text @ '']}''"

definition report :: "string \<Rightarrow> (string, json) fmap list \<Rightarrow> json" where
  "report time es = JObj (fmap_of_list
     [(''uuid'', JStr []), (''major'', JNum 0), (''minor'', JNum 0),
      (''comment'', JStr ''hall''), (''timestamp'', JStr time), (''data'', JArr (map JObj es))])"

definition three_entries_text :: bytes where
  "three_entries_text =
     ''{\"mac\":\"aa\",\"min\":-80,\"max\":-60,\"avg\":-70,\"remoteRssi\":-59},''
     @ ''{\"mac\":\"bb\",\"uuid\":\"f0\",\"major\":7,\"minor\":9,\"min\":-80,\"max\":-60,\"avg\":-70,\"remoteRssi\":-59},''
     @ ''{\"mac\":\"cc\",\"uuid\":\"f0\",\"major\":7,\"min\":-80,\"max\":-60,\"avg\":-70,\"remoteRssi\":-59}''"

definition nameless_entry_text :: bytes where
  "nameless_entry_text = ''{\"min\":-80,\"max\":-60,\"avg\":-70,\"remoteRssi\":-59}''"

text \<open>What \<open>zlib.compress\<close> makes of the text \<open>{}\<close>, and a stream that breaks off.\<close>

definition deflated_braces :: bytes where
  "deflated_braces =
     [CHR 0x78, CHR 0x9c, CHR 0xab, CHR 0xae, CHR 0x05, CHR 0x00, CHR 0x01, CHR 0x75,
      CHR 0x00, CHR 0xf9]"

definition broken_stream :: bytes where
  "broken_stream = [CHR 0x78, CHR 0x9c, CHR 0x00]"

text \<open>
  A host for the examples. Its decoders are tables: \<open>zlib_decompress\<close> knows the
  stream above, \<open>json_loads\<close> knows the empty object and five reports, and both fail on
  every other payload; \<open>strptime\<close> knows the two times of these reports. The flag of
  the aggregator has its fallback value, and the encoder does not raise. The argument
  is the offset of the host's time zone from UTC, in seconds: 0 for a host on UTC, 3600
  for one on Central European Time.
\<close>

definition known_streams :: "(bytes \<times> bytes) list" where
  "known_streams = [(deflated_braces, ''{}'')]"

definition known_texts :: "(bytes \<times> json) list" where
  "known_texts =
     [(''{}'', JObj fmempty),
      (report_text ''2020-01-01T00:00:00Z'' [], report ''2020-01-01T00:00:00Z'' []),
      (report_text ''2020-01-01T00:00:03Z'' [], report ''2020-01-01T00:00:03Z'' []),
      (report_text ''2020-01-01T00:00:00Z'' three_entries_text,
         report ''2020-01-01T00:00:00Z'' three_entries),
      (report_text ''2020-01-01T00:00:00Z'' nameless_entry_text,
         report ''2020-01-01T00:00:00Z'' [nameless_entry])]"

definition known_times :: "(string \<times> int \<times> int \<times> int \<times> int \<times> int \<times> int) list" where
  "known_times =
     [(''2020-01-01T00:00:00Z'', 2020, 1, 1, 0, 0, 0),
      (''2020-01-01T00:00:03Z'', 2020, 1, 1, 0, 0, 3)]"

definition host :: "int \<Rightarrow> Env" where
  "host offset =
     \<lparr>zlib_decompress = map_of known_streams, json_loads = map_of known_texts,
      strptime = map_of known_times, local_utcoffset = (\<lambda>dt. offset),
      StoneInfoIncludeContacts = Some True, dumps_error = (\<lambda>doc. None)\<rparr>"

text \<open>
  The service as \<open>Main\<close> starts it, and after the report of the stone \<open>s1\<close> for
  2020-01-01T00:00:00Z on a host on UTC.
\<close>

definition started :: MqttService where
  "started = MqttService_init World_init"


section \<open>Properties of \<open>Stone.update\<close>\<close>

lemma put_contact_unique:
  "unique_sources cs \<Longrightarrow> unique_sources (put_contact cs ct)"
  by (auto simp: unique_sources_def put_contact_def distinct_map_filter)

lemma foldl_put_contact_unique:
  "unique_sources cs \<Longrightarrow> unique_sources (foldl put_contact cs new)"
  by (induction new arbitrary: cs) (simp_all add: put_contact_unique)

lemma evict_unique: "unique_sources cs \<Longrightarrow> unique_sources (evict ts cs)"
  by (simp add: unique_sources_def evict_def distinct_map_filter)

lemma update_unique:
  "unique_sources (contacts s) \<Longrightarrow> unique_sources (contacts (update s ts new))"
  by (simp add: update_def foldl_put_contact_unique evict_unique)

text \<open>
  What the loop computes: the old contacts whose address is not reported again, in their
  order, followed by what the loop builds from the new contacts alone.
\<close>

lemma foldl_put_contact:
  "foldl put_contact cs new =
     filter (\<lambda>x. mac_address x \<notin> mac_address ` set new) cs @ foldl put_contact [] new"
proof (induction new arbitrary: cs)
  case Nil
  show ?case by simp
next
  case (Cons ct new)
  have "foldl put_contact cs (ct # new) =
          filter (\<lambda>x. mac_address x \<notin> mac_address ` set new) (put_contact cs ct)
            @ foldl put_contact [] new"
    using Cons [of "put_contact cs ct"] by simp
  moreover have "foldl put_contact [] (ct # new) =
          filter (\<lambda>x. mac_address x \<notin> mac_address ` set new) [ct]
            @ foldl put_contact [] new"
  proof -
    have "put_contact [] ct = [ct]"
      by (simp add: put_contact_def)
    then show ?thesis
      using Cons [of "[ct]"] by simp
  qed
  moreover have "filter (\<lambda>x. mac_address x \<notin> mac_address ` set new)
            (filter (\<lambda>x. mac_address x \<noteq> mac_address ct) cs)
          = filter (\<lambda>x. mac_address x \<notin> mac_address ` set (ct # new)) cs"
    by (auto intro: filter_cong)
  moreover have "put_contact cs ct = filter (\<lambda>x. mac_address x \<noteq> mac_address ct) cs @ [ct]"
    by (simp add: put_contact_def)
  ultimately show ?case
    by simp
qed

lemma set_foldl_put_contact_Nil: "set (foldl put_contact [] new) \<subseteq> set new"
proof -
  have "set (foldl put_contact cs new) \<subseteq> set cs \<union> set new" for cs
    by (induction new arbitrary: cs) (fastforce simp: put_contact_def)+
  from this [of "[]"] show ?thesis by simp
qed

lemma set_foldl_put_contact: "set (foldl put_contact cs new) \<subseteq> set cs \<union> set new"
  using set_foldl_put_contact_Nil [of new] by (subst foldl_put_contact) auto

lemma update_within_window:
  assumes "\<forall>ct \<in> set new. ts - 60 \<le> timestamp ct"
  shows "within_window (update s ts new)"
proof -
  have "set (contacts (update s ts new)) \<subseteq> set (evict ts (contacts s)) \<union> set new"
    by (simp add: update_def set_foldl_put_contact)
  with assms show ?thesis
    by (auto simp: within_window_def list_all_iff update_def evict_def)
qed

lemma updates_snoc: "updates s (calls @ [(ts, new)]) = update (updates s calls) ts new"
  by (simp add: updates_def)

lemma updates_unique:
  "unique_sources (contacts s) \<Longrightarrow> unique_sources (contacts (updates s calls))"
proof (induction calls rule: rev_induct)
  case Nil
  then show ?case by (simp add: updates_def)
next
  case (snoc call calls)
  obtain ts new where "call = (ts, new)" by (cases call)
  with snoc show ?case
    by (simp add: updates_snoc update_unique)
qed

lemma updates_within_window:
  "within_window s \<Longrightarrow> \<forall>(ts, new) \<in> set calls. \<forall>ct \<in> set new. ts - 60 \<le> timestamp ct
     \<Longrightarrow> within_window (updates s calls)"
proof (induction calls rule: rev_induct)
  case Nil
  then show ?case by (simp add: updates_def)
next
  case (snoc call calls)
  obtain ts new where call: "call = (ts, new)" by (cases call)
  with snoc.prems have "\<forall>ct \<in> set new. ts - 60 \<le> timestamp ct" by auto
  then show ?case
    by (simp add: call updates_snoc update_within_window)
qed

lemmas example_defs = no_identity_def sighting_def fresh_stone_def three_sightings_def
lemmas update_defs = updates_def update_def evict_def put_contact_def Stone_init_def

subsection \<open>The invariant of the contacts\<close>

text \<open>
  C1, as stated: after every call of a sequence of calls of \<open>Stone.update\<close>, no two
  contacts share an address and every contact's timestamp is at least
  \<open>last_update - 60\<close>. The second half fails when a call brings a contact that is
  itself older than the window: the stone called at the second 100 with a contact
  stamped 0 keeps that contact.
\<close>

theorem stale_sighting_counterexample:
  "\<not> (unique_sources (contacts (updates fresh_stone [(100, [sighting ''aa'' 0])])) \<and>
      within_window (updates fresh_stone [(100, [sighting ''aa'' 0])]))"
  by (simp add: update_defs within_window_def example_defs)

text \<open>
  C1, amended: for every sequence of calls of \<open>Stone.update\<close> on a new stone, after
  every call (after the first \<open>n\<close> calls, for every \<open>n\<close>) no two contacts share an
  address; and when each of these calls brought only contacts stamped no earlier than 60
  seconds before the timestamp of the call, as the handler does, which stamps each
  contact with the timestamp of its report, every contact's timestamp is at least
  \<open>last_update - 60\<close>.
\<close>

theorem updates_invariant:
  "unique_sources (contacts (updates (Stone_init mac b c) (take n calls))) \<and>
   ((\<forall>(ts, new) \<in> set (take n calls). \<forall>ct \<in> set new. ts - 60 \<le> timestamp ct) \<longrightarrow>
    within_window (updates (Stone_init mac b c) (take n calls)))"
proof (intro conjI impI)
  show "unique_sources (contacts (updates (Stone_init mac b c) (take n calls)))"
    by (rule updates_unique) (simp add: Stone_init_def unique_sources_def)
next
  assume "\<forall>(ts, new) \<in> set (take n calls). \<forall>ct \<in> set new. ts - 60 \<le> timestamp ct"
  moreover have "within_window (Stone_init mac b c)"
    by (simp add: within_window_def Stone_init_def)
  ultimately show "within_window (updates (Stone_init mac b c) (take n calls))"
    by (rule updates_within_window [rotated])
qed

text \<open>
  Three calls, the third of which reports the address of the first again together with
  a new one: the contacts afterwards are the second, and the two of the third call.
\<close>

theorem updates_invariant_witness:
  "list_all (\<lambda>call. list_all (\<lambda>ct. fst call - 60 \<le> timestamp ct) (snd call))
     [(100, [sighting ''aa'' 100]), (130, [sighting ''bb'' 130]),
      (170, [sighting ''aa'' 170, sighting ''cc'' 170])] \<and>
   unique_sources (contacts (updates fresh_stone
     [(100, [sighting ''aa'' 100]), (130, [sighting ''bb'' 130]),
      (170, [sighting ''aa'' 170, sighting ''cc'' 170])])) \<and>
   within_window (updates fresh_stone
     [(100, [sighting ''aa'' 100]), (130, [sighting ''bb'' 130]),
      (170, [sighting ''aa'' 170, sighting ''cc'' 170])]) \<and>
   contacts (updates fresh_stone
     [(100, [sighting ''aa'' 100]), (130, [sighting ''bb'' 130]),
      (170, [sighting ''aa'' 170, sighting ''cc'' 170])])
     = [sighting ''bb'' 130, sighting ''aa'' 170, sighting ''cc'' 170]"
  using updates_invariant [of "''s1''" no_identity "JStr ''hall''" 3
     "[(100, [sighting ''aa'' 100]), (130, [sighting ''bb'' 130]),
      (170, [sighting ''aa'' 170, sighting ''cc'' 170])]"]
  by (simp add: fresh_stone_def sighting_def update_defs)

subsection \<open>The window\<close>

text \<open>
  C5, as stated: \<open>Stone.update\<close> with the timestamp \<open>T\<close> keeps the contacts it finds
  with a timestamp of at least \<open>T - 60\<close>. It does not keep one whose address is
  reported again: the contact of the second 30 is inside the window of an update at the
  second 61, and is gone after it, replaced by the new contact of the same address.
\<close>

theorem replaced_sighting_counterexample:
  "sighting ''aa'' 30 \<in> set (contacts (update fresh_stone 30 [sighting ''aa'' 30])) \<and>
   61 - 60 \<le> timestamp (sighting ''aa'' 30) \<and>
   sighting ''aa'' 30 \<notin>
     set (contacts (update (update fresh_stone 30 [sighting ''aa'' 30]) 61 [sighting ''aa'' 61]))"
  by (simp add: update_defs example_defs)

text \<open>
  C5, amended: of the contacts that a stone holds and whose address is not among the
  addresses of the new contacts, \<open>Stone.update\<close> with the timestamp \<open>T\<close> removes
  exactly those with a timestamp below \<open>T - 60\<close> and keeps those with a timestamp of at
  least \<open>T - 60\<close>, the boundary included. (A contact whose address is reported again is
  replaced by the new contact.)
\<close>

theorem update_window:
  "c \<in> set (contacts s) \<Longrightarrow> mac_address c \<notin> mac_address ` set new \<Longrightarrow>
   (c \<in> set (contacts (update s ts new)) \<longleftrightarrow> ts - 60 \<le> timestamp c)"
proof -
  assume held: "c \<in> set (contacts s)" and other: "mac_address c \<notin> mac_address ` set new"
  have "c \<notin> set (foldl put_contact [] new)"
    using other set_foldl_put_contact_Nil [of new] by auto
  moreover have "contacts (update s ts new) =
      filter (\<lambda>x. mac_address x \<notin> mac_address ` set new) (evict ts (contacts s))
        @ foldl put_contact [] new"
    by (simp add: update_def foldl_put_contact [of "evict ts (contacts s)"])
  ultimately show ?thesis
    using held other by (auto simp: evict_def)
qed

text \<open>
  Contacts of the seconds 0, 1 and 30 and an update at the second 61 with a contact of a
  fourth address: the contact of the second 0 is removed, those of the seconds 1 (the
  boundary) and 30 are kept.
\<close>

theorem update_window_witness:
  "contacts three_sightings = [sighting ''aa'' 0, sighting ''bb'' 1, sighting ''cc'' 30] \<and>
   sighting ''aa'' 0 \<notin> set (contacts (update three_sightings 61 [sighting ''dd'' 61])) \<and>
   sighting ''bb'' 1 \<in> set (contacts (update three_sightings 61 [sighting ''dd'' 61])) \<and>
   sighting ''cc'' 30 \<in> set (contacts (update three_sightings 61 [sighting ''dd'' 61]))"
proof -
  have held: "contacts three_sightings = [sighting ''aa'' 0, sighting ''bb'' 1, sighting ''cc'' 30]"
    by (simp add: update_defs example_defs)
  have "sighting ''aa'' 0 \<in> set (contacts (update three_sightings 61 [sighting ''dd'' 61]))
          \<longleftrightarrow> 61 - 60 \<le> timestamp (sighting ''aa'' 0)"
    by (rule update_window) (simp_all add: held sighting_def)
  moreover have "sighting ''bb'' 1 \<in> set (contacts (update three_sightings 61 [sighting ''dd'' 61]))
          \<longleftrightarrow> 61 - 60 \<le> timestamp (sighting ''bb'' 1)"
    by (rule update_window) (simp_all add: held sighting_def)
  moreover have "sighting ''cc'' 30 \<in> set (contacts (update three_sightings 61 [sighting ''dd'' 61]))
          \<longleftrightarrow> 61 - 60 \<le> timestamp (sighting ''cc'' 30)"
    by (rule update_window) (simp_all add: held sighting_def)
  ultimately show ?thesis
    using held by (simp add: sighting_def)
qed

subsection \<open>Idempotence\<close>

text \<open>
  C6: applying \<open>update\<close> a second time with the same timestamp and the same new
  contacts changes nothing: the stone after the second call is the stone after the
  first, so its contacts are the same list, and the same set.
\<close>

theorem update_idempotent:
  "update (update s ts new) ts new = update s ts new \<and>
   set (contacts (update (update s ts new) ts new)) = set (contacts (update s ts new))"
proof -
  let ?old = "evict ts (contacts s)"
  let ?keep = "\<lambda>x. mac_address x \<notin> mac_address ` set new"
  let ?tail = "foldl put_contact [] new"
  have tail: "filter ?keep ?tail = []"
    using set_foldl_put_contact_Nil [of new] by (auto simp: filter_empty_conv)
  have once: "foldl put_contact ?old new = filter ?keep ?old @ ?tail"
    by (rule foldl_put_contact)
  have "foldl put_contact (evict ts (filter ?keep ?old @ ?tail)) new
          = filter ?keep (evict ts (filter ?keep ?old @ ?tail)) @ ?tail"
    by (rule foldl_put_contact)
  also have "filter ?keep (evict ts (filter ?keep ?old @ ?tail)) = filter ?keep ?old"
  proof -
    have "filter ?keep (evict ts ?tail) = []"
      using tail by (auto simp: evict_def filter_empty_conv)
    moreover have "evict ts (filter ?keep ?old) = filter ?keep ?old"
      by (auto simp: evict_def intro!: filter_cong)
    ultimately show ?thesis
      by (simp add: evict_def)
  qed
  finally have "update (update s ts new) ts new = update s ts new"
    by (simp add: update_def once)
  then show ?thesis
    by simp
qed

section \<open>Properties of \<open>World\<close> and \<open>Aggregator\<close>\<close>

subsection \<open>\<open>update_stone\<close>\<close>

lemma update_static:
  "s_mac_address (update s ts new) = s_mac_address s"
  "s_b_address (update s ts new) = s_b_address s"
  "comment (update s ts new) = comment s"
  by (simp_all add: update_def)

lemmas world_example_defs = hall_world_def moved_stone_def other_stone_def

text \<open>
  C7: \<open>update_stone\<close> stores the stone as it is when the world has none for its
  address; otherwise the stored stone becomes
  \<open>update existing (last_update stone) (contacts stone)\<close>, which keeps the address,
  the beacon identity and the comment of the stored stone. No other stone and no
  description changes.
\<close>

theorem update_stone_upsert:
  "(fmlookup (stones w) (s_mac_address stone) = None \<longrightarrow>
      fmlookup (stones (update_stone w stone)) (s_mac_address stone) = Some stone) \<and>
   (\<forall>existing. fmlookup (stones w) (s_mac_address stone) = Some existing \<longrightarrow>
      fmlookup (stones (update_stone w stone)) (s_mac_address stone)
        = Some (update existing (last_update stone) (contacts stone)) \<and>
      s_mac_address (update existing (last_update stone) (contacts stone))
        = s_mac_address existing \<and>
      s_b_address (update existing (last_update stone) (contacts stone))
        = s_b_address existing \<and>
      comment (update existing (last_update stone) (contacts stone)) = comment existing) \<and>
   (\<forall>mac. mac \<noteq> s_mac_address stone \<longrightarrow>
      fmlookup (stones (update_stone w stone)) mac = fmlookup (stones w) mac) \<and>
   descs (update_stone w stone) = descs w"
proof (cases "fmlookup (stones w) (s_mac_address stone)")
  case None
  then show ?thesis by (simp add: update_stone_def)
next
  case (Some existing)
  then show ?thesis by (simp add: update_stone_def update_static)
qed

text \<open>
  A new stone is stored as it is. A report for the stored stone \<open>s1\<close> with another
  identity and comment changes its timestamp and contacts only. A report for \<open>s2\<close>
  leaves \<open>s1\<close> alone.
\<close>

theorem update_stone_upsert_witness:
  "fmlookup (stones World_init) (s_mac_address fresh_stone) = None \<and>
   fmlookup (stones (update_stone World_init fresh_stone)) ''s1'' = Some fresh_stone \<and>
   fmlookup (stones hall_world) (s_mac_address moved_stone)
     = Some (update fresh_stone 30 [sighting ''aa'' 30]) \<and>
   fmlookup (stones (update_stone hall_world moved_stone)) ''s1''
     = Some \<lparr>s_mac_address = ''s1'', s_b_address = no_identity, comment = JStr ''hall'',
             last_update = 61, contacts = [sighting ''aa'' 30, sighting ''bb'' 61]\<rparr> \<and>
   fmlookup (stones (update_stone hall_world other_stone)) ''s1''
     = Some (update fresh_stone 30 [sighting ''aa'' 30])"
  using update_stone_upsert [of World_init fresh_stone]
    update_stone_upsert [of hall_world moved_stone]
    update_stone_upsert [of hall_world other_stone]
  by (simp add: world_example_defs example_defs update_defs update_stone_def World_init_def)

subsection \<open>\<open>aggregate_stones\<close>\<close>

lemma stone_entry_static:
  "fmlookup (stone_entry inc s) ''uuid'' = Some (uuid (s_b_address s))"
  "fmlookup (stone_entry inc s) ''major'' = Some (major (s_b_address s))"
  "fmlookup (stone_entry inc s) ''minor'' = Some (minor (s_b_address s))"
  "fmlookup (stone_entry inc s) ''comment'' = Some (comment s)"
  "fmlookup (stone_entry inc s) ''last_seen'' = Some (JNum (last_update s))"
  by (simp_all add: stone_entry_def Let_def)

lemma stone_entry_contacts:
  "fmlookup (stone_entry inc s) ''contacts''
     = (if inc then Some (JArr (map stone_contact (contacts s))) else None)"
  by (simp add: stone_entry_def Let_def)

lemma stone_entry_keys:
  "fmdom (stone_entry inc s) =
     (if inc then {|''uuid'', ''major'', ''minor'', ''comment'', ''last_seen'', ''contacts''|}
      else {|''uuid'', ''major'', ''minor'', ''comment'', ''last_seen''|})"
  by (auto simp: stone_entry_def Let_def)

lemma stone_contact_fields:
  "\<exists>m. stone_contact c = JObj m \<and>
     fmdom m = {|''mac'', ''uuid'', ''major'', ''minor'', ''rssi_avg'', ''rssi_tx''|} \<and>
     fmlookup m ''mac'' = Some (mac_address c) \<and>
     fmlookup m ''uuid'' = Some (uuid (b_address c)) \<and>
     fmlookup m ''major'' = Some (major (b_address c)) \<and>
     fmlookup m ''minor'' = Some (minor (b_address c)) \<and>
     fmlookup m ''rssi_avg'' = Some (rssi_avg c) \<and>
     fmlookup m ''rssi_tx'' = Some (tx_rssi c)"
  by (auto simp: stone_contact_def)

text \<open>
  C8: the dictionary of \<open>aggregate_stones\<close> has the addresses of the stones as its
  keys, no other. The entry of a stone holds its beacon identity (\<open>uuid\<close>, \<open>major\<close>,
  \<open>minor\<close>), its comment and its last update (\<open>last_seen\<close>). With the flag set it also
  holds \<open>contacts\<close>, the list of one dictionary per contact of the stone with exactly
  the keys \<open>mac\<close>, \<open>uuid\<close>, \<open>major\<close>, \<open>minor\<close>, \<open>rssi_avg\<close> and \<open>rssi_tx\<close>, so
  without a timestamp. Without the flag the entry has no key \<open>contacts\<close>.
\<close>

theorem aggregate_stones_view:
  "fmdom (aggregate_stones inc sts) = fmdom sts \<and>
   (\<forall>mac s. fmlookup sts mac = Some s \<longrightarrow>
      fmlookup (aggregate_stones inc sts) mac = Some (JObj (stone_entry inc s)) \<and>
      fmlookup (stone_entry inc s) ''uuid'' = Some (uuid (s_b_address s)) \<and>
      fmlookup (stone_entry inc s) ''major'' = Some (major (s_b_address s)) \<and>
      fmlookup (stone_entry inc s) ''minor'' = Some (minor (s_b_address s)) \<and>
      fmlookup (stone_entry inc s) ''comment'' = Some (comment s) \<and>
      fmlookup (stone_entry inc s) ''last_seen'' = Some (JNum (last_update s)) \<and>
      (inc \<longrightarrow> fmdom (stone_entry inc s)
                 = {|''uuid'', ''major'', ''minor'', ''comment'', ''last_seen'', ''contacts''|} \<and>
               fmlookup (stone_entry inc s) ''contacts''
                 = Some (JArr (map stone_contact (contacts s)))) \<and>
      (\<not> inc \<longrightarrow> fmdom (stone_entry inc s)
                 = {|''uuid'', ''major'', ''minor'', ''comment'', ''last_seen''|} \<and>
               fmlookup (stone_entry inc s) ''contacts'' = None)) \<and>
   (\<forall>c. \<exists>m. stone_contact c = JObj m \<and>
      fmdom m = {|''mac'', ''uuid'', ''major'', ''minor'', ''rssi_avg'', ''rssi_tx''|} \<and>
      fmlookup m ''mac'' = Some (mac_address c) \<and>
      fmlookup m ''uuid'' = Some (uuid (b_address c)) \<and>
      fmlookup m ''major'' = Some (major (b_address c)) \<and>
      fmlookup m ''minor'' = Some (minor (b_address c)) \<and>
      fmlookup m ''rssi_avg'' = Some (rssi_avg c) \<and>
      fmlookup m ''rssi_tx'' = Some (tx_rssi c))"
proof (intro conjI allI impI)
  show "fmdom (aggregate_stones inc sts) = fmdom sts"
    by (simp add: aggregate_stones_def)
next
  fix mac s
  assume "fmlookup sts mac = Some s"
  then show "fmlookup (aggregate_stones inc sts) mac = Some (JObj (stone_entry inc s))"
    by (simp add: aggregate_stones_def)
next
  fix c
  show "\<exists>m. stone_contact c = JObj m \<and>
      fmdom m = {|''mac'', ''uuid'', ''major'', ''minor'', ''rssi_avg'', ''rssi_tx''|} \<and>
      fmlookup m ''mac'' = Some (mac_address c) \<and>
      fmlookup m ''uuid'' = Some (uuid (b_address c)) \<and>
      fmlookup m ''major'' = Some (major (b_address c)) \<and>
      fmlookup m ''minor'' = Some (minor (b_address c)) \<and>
      fmlookup m ''rssi_avg'' = Some (rssi_avg c) \<and>
      fmlookup m ''rssi_tx'' = Some (tx_rssi c)"
    by (rule stone_contact_fields)
qed (simp_all add: stone_entry_static stone_entry_contacts stone_entry_keys)

text \<open>The world with the stone \<open>s1\<close> and its one contact, with the flag and without.\<close>

theorem aggregate_stones_view_witness:
  "fmlookup (stones hall_world) ''s1'' = Some (update fresh_stone 30 [sighting ''aa'' 30]) \<and>
   fmdom (aggregate_stones True (stones hall_world)) = {|''s1''|} \<and>
   fmlookup (aggregate_stones True (stones hall_world)) ''s1'' =
     Some (JObj (fmupd ''contacts''
       (JArr [JObj (fmap_of_list
           [(''mac'', JStr ''aa''), (''uuid'', JStr []), (''major'', JNum 0),
            (''minor'', JNum 0), (''rssi_avg'', JNum (- 70)), (''rssi_tx'', JNum (- 59))])])
       (fmap_of_list
         [(''uuid'', JStr []), (''major'', JNum 0), (''minor'', JNum 0),
          (''comment'', JStr ''hall''), (''last_seen'', JNum 30)]))) \<and>
   fmlookup (aggregate_stones False (stones hall_world)) ''s1'' =
     Some (JObj (fmap_of_list
       [(''uuid'', JStr []), (''major'', JNum 0), (''minor'', JNum 0),
        (''comment'', JStr ''hall''), (''last_seen'', JNum 30)])) \<and>
   fmlookup (stone_entry False (update fresh_stone 30 [sighting ''aa'' 30])) ''contacts'' = None"
proof -
  let ?s = "update fresh_stone 30 [sighting ''aa'' 30]"
  have held: "fmlookup (stones hall_world) ''s1'' = Some ?s"
    by (simp add: hall_world_def example_defs update_defs update_stone_def World_init_def)
  have keys: "fmdom (stones hall_world) = {|''s1''|}"
    by (simp add: hall_world_def example_defs update_defs update_stone_def World_init_def)
  have with_contacts: "fmlookup (aggregate_stones True (stones hall_world)) ''s1''
      = Some (JObj (stone_entry True ?s))"
    using aggregate_stones_view [of True "stones hall_world"] held by blast
  have without: "fmlookup (aggregate_stones False (stones hall_world)) ''s1''
      = Some (JObj (stone_entry False ?s))
      \<and> fmlookup (stone_entry False ?s) ''contacts'' = None"
    using aggregate_stones_view [of False "stones hall_world"] held by blast
  have "fmdom (aggregate_stones True (stones hall_world)) = fmdom (stones hall_world)"
    using aggregate_stones_view [of True "stones hall_world"] by blast
  then show ?thesis
    using held keys with_contacts without
    by (simp add: stone_entry_def stone_contact_def example_defs update_defs)
qed

subsection \<open>\<open>update_desc\<close> and \<open>aggregate_descs\<close>\<close>



section \<open>Properties of \<open>MqttService.on_message\<close>\<close>

subsection \<open>The examples of payloads\<close>

lemmas host_defs = report_text_def report_def known_texts_def known_times_def host_def
  known_streams_def deflated_braces_def broken_stream_def three_entries_text_def
  nameless_entry_text_def
lemmas time_defs = wall_seconds_def ymd2ord_def days_before_year_def days_before_month_def
  dt_timestamp_def replace_tzinfo_def
lemmas read_defs = read_report_def parse_time_def subscript_def andthen_def entries_def

lemma decode_report:
  "decode (host offset) (report_text ''2020-01-01T00:00:00Z'' [])
     = Inr (report ''2020-01-01T00:00:00Z'' [])"
  "decode (host offset) (report_text ''2020-01-01T00:00:03Z'' [])
     = Inr (report ''2020-01-01T00:00:03Z'' [])"
  "decode (host offset) (report_text ''2020-01-01T00:00:00Z'' three_entries_text)
     = Inr (report ''2020-01-01T00:00:00Z'' three_entries)"
  "decode (host offset) (report_text ''2020-01-01T00:00:00Z'' nameless_entry_text)
     = Inr (report ''2020-01-01T00:00:00Z'' [nameless_entry])"
  by (simp_all add: decode_def loads_def host_defs)


lemma parse_time_example:
  "parse_time (host 0) (JStr ''2020-01-01T00:00:00Z'') = Inr 1577836800"
  "parse_time (host 0) (JStr ''2020-01-01T00:00:03Z'') = Inr 1577836803"
  by (simp_all add: host_defs time_defs parse_time_def)


lemma started_fields:
  "channel_in_sensors_prefix started = ''JellingStone/''"
  "channel_in_nameupdate started = ''NameUpdate''"
  "channel_out_stones started = ''Aggregated/Stones''"
  "channel_out_graph started = ''Aggregated/Graph''"
  "last_stone_update started = 0"
  "update_interval started = 4" "world started = World_init"
  by (simp_all add: started_def MqttService_init_def)

lemma host_fields:
  "StoneInfoIncludeContacts (host offset) = Some True" "dumps_error (host offset) doc = None"
  by (simp_all add: host_def)

subsection \<open>The contacts of a report\<close>

lemma contact_of_entry:
  "has_contact_fields m \<Longrightarrow> contact_of ts (JObj m) = Inr (contact_at ts m)"
  by (auto simp: has_contact_fields_def contact_of_def contact_at_def identity_of_def
        subscript_def andthen_def split: option.splits)

lemma contacts_of_entries:
  "\<forall>m \<in> set ms. has_contact_fields m \<Longrightarrow>
   contacts_of ts (map JObj ms) = Inr (map (contact_at ts) ms)"
  by (induction ms) (simp_all add: contact_of_entry andthen_def)

lemma foldl_put_contact_distinct:
  "unique_sources new \<Longrightarrow> foldl put_contact [] new = new"
proof (induction new rule: rev_induct)
  case Nil
  show ?case by simp
next
  case (snoc ct new)
  then have "foldl put_contact [] new = new"
    by (simp add: unique_sources_def)
  moreover have "\<forall>x \<in> set new. mac_address x \<noteq> mac_address ct"
    using snoc.prems by (simp add: unique_sources_def image_iff) metis
  then have "put_contact new ct = new @ [ct]"
    by (simp add: put_contact_def)
  ultimately show ?case
    by simp
qed

text \<open>
  C10: a report is read into a stone whose new contacts are made of the entries of its
  list \<open>data\<close>, one contact per entry and in their order, whenever every entry has the
  fields \<open>mac\<close>, \<open>min\<close>, \<open>max\<close>, \<open>avg\<close> and \<open>remoteRssi\<close>; the fields \<open>uuid\<close>,
  \<open>major\<close> and \<open>minor\<close> of an entry may be absent. The beacon identity of the
  contact of an entry is made of the values of these three fields when the entry has
  all of them, and is \<open>('', 0, 0)\<close> when one is absent. When no two entries share an
  address, these contacts are the contacts of the stone.
\<close>

theorem report_contacts:
  assumes "fmlookup d ''uuid'' = Some u" and "fmlookup d ''major'' = Some ma"
    and "fmlookup d ''minor'' = Some mi" and "fmlookup d ''comment'' = Some c"
    and "fmlookup d ''timestamp'' = Some time_string"
    and "parse_time env time_string = Inr ts"
    and "fmlookup d ''data'' = Some (JArr (map JObj ms))"
    and "\<forall>m \<in> set ms. has_contact_fields m"
  shows "read_report env mac (JObj d) =
      Inr (update (Stone_init mac \<lparr>uuid = u, major = ma, minor = mi\<rparr> c) ts
             (map (contact_at ts) ms), ts) \<and>
    (distinct (map (\<lambda>m. fmlookup m ''mac'') ms) \<longrightarrow>
       contacts (update (Stone_init mac \<lparr>uuid = u, major = ma, minor = mi\<rparr> c) ts
                  (map (contact_at ts) ms))
         = map (contact_at ts) ms) \<and>
    (\<forall>m \<in> set ms. \<forall>u' ma' mi'.
       fmlookup m ''uuid'' = Some u' \<and> fmlookup m ''major'' = Some ma' \<and>
       fmlookup m ''minor'' = Some mi' \<longrightarrow>
         b_address (contact_at ts m) = \<lparr>uuid = u', major = ma', minor = mi'\<rparr>) \<and>
    (\<forall>m \<in> set ms.
       fmlookup m ''uuid'' = None \<or> fmlookup m ''major'' = None \<or>
       fmlookup m ''minor'' = None \<longrightarrow>
         b_address (contact_at ts m) = \<lparr>uuid = JStr [], major = JNum 0, minor = JNum 0\<rparr>)"
proof (intro conjI impI ballI allI)
  show "read_report env mac (JObj d) =
      Inr (update (Stone_init mac \<lparr>uuid = u, major = ma, minor = mi\<rparr> c) ts
             (map (contact_at ts) ms), ts)"
    using assms(1-7) contacts_of_entries [OF assms(8), of ts]
    by (simp add: read_report_def subscript_def andthen_def entries_def)
next
  assume "distinct (map (\<lambda>m. fmlookup m ''mac'') ms)"
  moreover have "fmlookup m ''mac'' = Some (mac_address (contact_at ts m))"
    if "m \<in> set ms" for m
    using that assms(8) by (auto simp: has_contact_fields_def contact_at_def)
  ultimately have "unique_sources (map (contact_at ts) ms)"
    unfolding unique_sources_def distinct_map
    by (auto simp: inj_on_def)
  then show "contacts (update (Stone_init mac \<lparr>uuid = u, major = ma, minor = mi\<rparr> c) ts
                  (map (contact_at ts) ms))
         = map (contact_at ts) ms"
    by (simp add: update_def evict_def Stone_init_def foldl_put_contact_distinct)
next
  fix m :: "(string, json) fmap" and u' ma' mi'
  assume "fmlookup m ''uuid'' = Some u' \<and> fmlookup m ''major'' = Some ma' \<and>
       fmlookup m ''minor'' = Some mi'"
  then show "b_address (contact_at ts m) = \<lparr>uuid = u', major = ma', minor = mi'\<rparr>"
    by (simp add: contact_at_def identity_of_def)
next
  fix m :: "(string, json) fmap"
  assume "fmlookup m ''uuid'' = None \<or> fmlookup m ''major'' = None \<or>
       fmlookup m ''minor'' = None"
  then show "b_address (contact_at ts m) = \<lparr>uuid = JStr [], major = JNum 0, minor = JNum 0\<rparr>"
    by (auto simp: contact_at_def identity_of_def split: option.splits)
qed

subsection \<open>A report that is read\<close>

lemma update_stone_not_empty: "stones (update_stone w stone) \<noteq> fmempty"
proof
  assume "stones (update_stone w stone) = fmempty"
  then have "fmlookup (stones (update_stone w stone)) (s_mac_address stone) = None"
    by simp
  then show False
    by (simp add: update_stone_def split: option.splits)
qed

lemma aggregate_stones_rendered:
  assumes "StoneInfoIncludeContacts env = Some inc"
    and "dumps_error env (By_address (aggregate_stones inc sts)) = None"
    and "sts \<noteq> fmempty"
  shows "aggregate_stones_dumps env sts = Inr (By_address (aggregate_stones inc sts))"
  using assms by (simp add: aggregate_stones_dumps_def json_dumps_def)

lemma aggregate_graph_rendered:
  assumes "dumps_error env (By_address (aggregate_graph sts ts)) = None"
  shows "aggregate_graph_dumps env sts ts = Inr (By_address (aggregate_graph sts ts))"
  using assms by (simp add: aggregate_graph_dumps_def json_dumps_def)

lemma sensor_outcome:
  assumes "decode env payload = Inr data"
    and "take (length (channel_in_sensors_prefix svc)) topic = channel_in_sensors_prefix svc"
    and "read_report env (drop (length (channel_in_sensors_prefix svc)) topic) data
           = Inr (stone, ts)"
  shows "on_message env svc topic payload =
    (if ts - last_stone_update svc \<ge> update_interval svc
     then (case aggregate_stones_dumps env (stones (update_stone (world svc) stone)) of
             Inl e \<Rightarrow>
               \<lparr>state = svc\<lparr>world := update_stone (world svc) stone, last_stone_update := ts\<rparr>,
                effects = [], raised = Some e\<rparr>
           | Inr agg_stones \<Rightarrow>
               (case aggregate_graph_dumps env (stones (update_stone (world svc) stone)) ts of
                  Inl e \<Rightarrow>
                    \<lparr>state = svc\<lparr>world := update_stone (world svc) stone,
                                 last_stone_update := ts\<rparr>,
                     effects = [], raised = Some e\<rparr>
                | Inr agg_graph \<Rightarrow>
                    \<lparr>state = svc\<lparr>world := update_stone (world svc) stone,
                                 last_stone_update := ts\<rparr>,
                     effects = [Publish (channel_out_stones svc) agg_stones,
                                Publish (channel_out_graph svc) agg_graph],
                     raised = None\<rparr>))
     else \<lparr>state = svc\<lparr>world := update_stone (world svc) stone\<rparr>, effects = [],
           raised = None\<rparr>)"
  using assms
  by (simp add: on_message_def on_sensor_report_def Let_def split: sum.splits)

lemma sensor_published:
  assumes "decode env payload = Inr data"
    and "take (length (channel_in_sensors_prefix svc)) topic = channel_in_sensors_prefix svc"
    and "read_report env (drop (length (channel_in_sensors_prefix svc)) topic) data
           = Inr (stone, ts)"
    and "StoneInfoIncludeContacts env = Some inc"
    and "dumps_error env
           (By_address (aggregate_stones inc (stones (update_stone (world svc) stone)))) = None"
    and "dumps_error env
           (By_address (aggregate_graph (stones (update_stone (world svc) stone)) ts)) = None"
  shows "on_message env svc topic payload =
    (if ts - last_stone_update svc \<ge> update_interval svc
     then \<lparr>state = svc\<lparr>world := update_stone (world svc) stone, last_stone_update := ts\<rparr>,
           effects =
             [Publish (channel_out_stones svc)
                (By_address (aggregate_stones inc (stones (update_stone (world svc) stone)))),
              Publish (channel_out_graph svc)
                (By_address (aggregate_graph (stones (update_stone (world svc) stone)) ts))],
           raised = None\<rparr>
     else \<lparr>state = svc\<lparr>world := update_stone (world svc) stone\<rparr>, effects = [],
           raised = None\<rparr>)"
  unfolding sensor_outcome [OF assms(1-3)]
    aggregate_stones_rendered [OF assms(4) assms(5) update_stone_not_empty]
    aggregate_graph_rendered [OF assms(6)]
  by simp




text \<open>
  The report with the three entries, handled by the service after its start: the stone
  \<open>s1\<close> of the world has three contacts, of which the second has the identity of its
  entry and the first and the third, whose entries lack \<open>minor\<close> or all three fields,
  have the identity \<open>('', 0, 0)\<close>.
\<close>

theorem report_contacts_witness:
  "list_all has_contact_fields three_entries \<and>
   read_report (host 0) ''s1'' (report ''2020-01-01T00:00:00Z'' three_entries)
     = Inr (\<lparr>s_mac_address = ''s1'', s_b_address = no_identity, comment = JStr ''hall'',
             last_update = 1577836800, contacts = three_contacts 1577836800\<rparr>, 1577836800) \<and>
   fmlookup (stones (world (state (on_message (host 0) started ''JellingStone/s1''
       (report_text ''2020-01-01T00:00:00Z'' three_entries_text))))) ''s1''
     = Some \<lparr>s_mac_address = ''s1'', s_b_address = no_identity, comment = JStr ''hall'',
             last_update = 1577836800, contacts = three_contacts 1577836800\<rparr> \<and>
   map b_address (three_contacts 1577836800)
     = [\<lparr>uuid = JStr [], major = JNum 0, minor = JNum 0\<rparr>,
        \<lparr>uuid = JStr ''f0'', major = JNum 7, minor = JNum 9\<rparr>,
        \<lparr>uuid = JStr [], major = JNum 0, minor = JNum 0\<rparr>]"
proof -
  let ?d = "fmap_of_list
     [(''uuid'', JStr []), (''major'', JNum 0), (''minor'', JNum 0),
      (''comment'', JStr ''hall''), (''timestamp'', JStr ''2020-01-01T00:00:00Z''),
      (''data'', JArr (map JObj three_entries))]"
  let ?stone = "\<lparr>s_mac_address = ''s1'', s_b_address = no_identity, comment = JStr ''hall'',
             last_update = 1577836800, contacts = three_contacts 1577836800\<rparr>"
  have fields: "list_all has_contact_fields three_entries"
    by (simp add: three_entries_def entry_of_def has_contact_fields_def)
  have made: "map (contact_at 1577836800) three_entries = three_contacts 1577836800"
    by (simp add: three_entries_def three_contacts_def entry_of_def contact_at_def
          identity_of_def sighting_def no_identity_def)
  have "read_report (host 0) mac (JObj ?d) =
      Inr (update (Stone_init mac \<lparr>uuid = JStr [], major = JNum 0, minor = JNum 0\<rparr>
                     (JStr ''hall'')) 1577836800
             (map (contact_at 1577836800) three_entries), 1577836800)" for mac
    using fields
    by (intro report_contacts [where time_string = "JStr ''2020-01-01T00:00:00Z''", THEN conjunct1])
       (simp_all add: parse_time_example list_all_iff)
  then have read: "read_report (host 0) mac (report ''2020-01-01T00:00:00Z'' three_entries)
      = Inr (?stone\<lparr>s_mac_address := mac\<rparr>, 1577836800)" for mac
    by (simp add: report_def made update_defs three_contacts_def sighting_def no_identity_def)
  have "on_message (host 0) started ''JellingStone/s1''
       (report_text ''2020-01-01T00:00:00Z'' three_entries_text) =
     \<lparr>state = started\<lparr>world := update_stone World_init ?stone,
               last_stone_update := 1577836800\<rparr>,
      effects =
        [Publish ''Aggregated/Stones''
           (By_address (aggregate_stones True (stones (update_stone World_init ?stone)))),
         Publish ''Aggregated/Graph''
           (By_address (aggregate_graph (stones (update_stone World_init ?stone)) 1577836800))],
      raised = None\<rparr>"
    by (subst sensor_published [OF decode_report(3) _ read host_fields(1)])
       (simp_all add: started_fields host_fields)
  then show ?thesis
    using fields read [of "''s1''"]
    by (simp add: update_stone_def World_init_def three_contacts_def sighting_def no_identity_def)
qed

subsection \<open>The throttle\<close>




subsection \<open>Messages that cannot be read\<close>













text \<open>
  An exception while the aggregates are rendered leaves the handler after the stone has
  been stored: when the configuration flag is no boolean, a report that is due raises
  \<open>ValueError\<close> and publishes nothing, and the world has the stone.
\<close>

lemma raise_after_store:
  assumes "decode env payload = Inr data"
    and "take (length (channel_in_sensors_prefix svc)) topic = channel_in_sensors_prefix svc"
    and "read_report env (drop (length (channel_in_sensors_prefix svc)) topic) data
           = Inr (stone, ts)"
    and "ts - last_stone_update svc \<ge> update_interval svc"
    and "StoneInfoIncludeContacts env = None"
  shows "on_message env svc topic payload =
     \<lparr>state = svc\<lparr>world := update_stone (world svc) stone, last_stone_update := ts\<rparr>,
      effects = [], raised = Some ValueError\<rparr>"
  unfolding sensor_outcome [OF assms(1-3)]
  using assms(4-5) by (simp add: aggregate_stones_dumps_def update_stone_not_empty)

subsection \<open>The timestamp of a report\<close>

text \<open>
  C2: the time of a report is to be read as UTC. The handler reads it as local time of
  the host: on a host one hour east of UTC the report for 2020-01-01T00:00:00Z gets
  the timestamp 1577833200, one hour before the UTC value 1577836800, which is what a
  host on UTC computes and what \<open>timestamp()\<close> of the datetime returned by \<open>replace\<close>
  would have been.
\<close>

theorem naive_timestamp_is_local:
  "parse_time (host 3600) (JStr ''2020-01-01T00:00:00Z'') = Inr 1577833200 \<and>
   parse_time (host 0) (JStr ''2020-01-01T00:00:00Z'') = Inr 1577836800 \<and>
   dt_timestamp (local_utcoffset (host 3600))
     (replace_tzinfo \<lparr>year = 2020, month = 1, day = 1, hour = 0, minute = 0, second = 0,
                      tzinfo = None\<rparr> UTC) = 1577836800"
  by (simp add: host_defs time_defs parse_time_def)

end
